theory Spec2Isabelle
  imports Complex_Main "HOL-Library.Multiset"
begin

section \<open>MediRisk AI: the encoder, the risk tiers and the explanation extractor of app.py\<close>

text \<open>
  The development follows \<^verbatim>\<open>src/app.py\<close>. Python floats are idealised as
  reals; the one place where the code can leave the reals, the true division of the
  linear-coefficient branch, produces an \<open>npfloat\<close> that has \<open>NaN\<close> and the
  infinities as values of their own.
\<close>

subsection \<open>Values\<close>

text \<open>A Python number as the widgets deliver it: an \<^verbatim>\<open>int\<close> or a \<^verbatim>\<open>float\<close>.\<close>

datatype pynum = PyInt int | PyFloat real

fun num_val :: "pynum \<Rightarrow> real" where
  "num_val (PyInt i) = real_of_int i"
| "num_val (PyFloat r) = r"

text \<open>\<^verbatim>\<open>float(x)\<close> on a number.\<close>

definition py_float :: "pynum \<Rightarrow> pynum" where
  "py_float x = PyFloat (num_val x)"

text \<open>\<^verbatim>\<open>d.get(k, default)\<close> on a dictionary written as a literal.\<close>

definition dict_get :: "('k \<times> 'v) list \<Rightarrow> 'k \<Rightarrow> 'v \<Rightarrow> 'v" where
  "dict_get d k dflt = (case map_of d k of None \<Rightarrow> dflt | Some v \<Rightarrow> v)"

subsection \<open>Feature encoder\<close>

definition FEATURE_COLUMNS :: "string list" where
  "FEATURE_COLUMNS =
     [''age'', ''sex'', ''cp'', ''trestbps'', ''chol'',
      ''fbs'', ''restecg'', ''thalach'', ''exang'',
      ''oldpeak'', ''slope'', ''ca'', ''thal'']"

definition cp_map :: "(string \<times> int) list" where
  "cp_map =
     [(''Typical Angina'', 1),
      (''Atypical Angina'', 2),
      (''Non-anginal Pain'', 3),
      (''Asymptomatic'', 4)]"

definition restecg_map :: "(string \<times> int) list" where
  "restecg_map =
     [(''Normal'', 0),
      (''ST-T abnormality'', 1),
      (''LV hypertrophy'', 2)]"

definition slope_map :: "(string \<times> int) list" where
  "slope_map =
     [(''Upsloping'', 1),
      (''Flat'', 2),
      (''Downsloping'', 3)]"

definition thal_map :: "(string \<times> int) list" where
  "thal_map =
     [(''Normal'', 3),
      (''Fixed Defect'', 6),
      (''Reversible Defect'', 7)]"

text \<open>The four categorical codes, as the entries of \<^verbatim>\<open>processed\<close> compute them.\<close>

definition cp_code :: "string \<Rightarrow> int" where
  "cp_code cp = dict_get cp_map cp 4"

definition restecg_code :: "string \<Rightarrow> int" where
  "restecg_code restecg = dict_get restecg_map restecg 0"

definition slope_code :: "string \<Rightarrow> int" where
  "slope_code slope = dict_get slope_map slope 2"

definition thal_code :: "string \<Rightarrow> int" where
  "thal_code thal = dict_get thal_map thal 3"

text \<open>The list \<^verbatim>\<open>processed\<close> of \<^verbatim>\<open>preprocess_inputs\<close>, in its order.\<close>

definition processed :: "pynum \<Rightarrow> string \<Rightarrow> string \<Rightarrow> pynum \<Rightarrow> pynum \<Rightarrow> pynum \<Rightarrow> string \<Rightarrow>
    pynum \<Rightarrow> string \<Rightarrow> pynum \<Rightarrow> string \<Rightarrow> pynum \<Rightarrow> string \<Rightarrow> pynum list" where
  "processed age gender cp trestbps chol glucose restecg thalach exang oldpeak slope ca thal =
     (let sex = (if gender = ''Male'' then 1 else 0);
          fbs = (if num_val glucose > 120 then 1 else 0);
          exang' = (if exang = ''Yes'' then 1 else 0)
      in [py_float age,
          PyInt sex,
          PyInt (cp_code cp),
          py_float trestbps,
          py_float chol,
          PyInt fbs,
          PyInt (restecg_code restecg),
          py_float thalach,
          PyInt exang',
          py_float oldpeak,
          PyInt (slope_code slope),
          py_float ca,
          PyInt (thal_code thal)])"

text \<open>
  A one-row data frame is the row with its column labels:
  \<^verbatim>\<open>pd.DataFrame([processed], columns=FEATURE_COLUMNS)\<close>.
\<close>

type_synonym dataframe = "(string \<times> pynum) list"

definition preprocess_inputs :: "pynum \<Rightarrow> string \<Rightarrow> string \<Rightarrow> pynum \<Rightarrow> pynum \<Rightarrow> pynum \<Rightarrow> string \<Rightarrow>
    pynum \<Rightarrow> string \<Rightarrow> pynum \<Rightarrow> string \<Rightarrow> pynum \<Rightarrow> string \<Rightarrow> dataframe" where
  "preprocess_inputs age gender cp trestbps chol glucose restecg thalach exang oldpeak slope ca thal =
     zip FEATURE_COLUMNS
       (processed age gender cp trestbps chol glucose restecg thalach exang oldpeak slope ca thal)"

text \<open>The cell of a column, and the row as plain numbers.\<close>

definition column :: "dataframe \<Rightarrow> string \<Rightarrow> pynum option" where
  "column df c = map_of df c"

definition row_values :: "dataframe \<Rightarrow> real list" where
  "row_values df = map (\<lambda>kv. num_val (snd kv)) df"

subsection \<open>Risk tiers\<close>

definition categorize_risk :: "real \<Rightarrow> string" where
  "categorize_risk prob =
     (if prob < 0.4 then ''LOW''
      else if prob < 0.7 then ''MODERATE''
      else ''HIGH'')"

subsection \<open>Floats that can leave the reals\<close>

datatype npfloat = Fin real | PInf | NInf | NaN

text \<open>
  The true division of two finite float64 values in numpy: division by zero does not raise,
  it gives \<^verbatim>\<open>nan\<close> for 0/0 and a signed infinity otherwise (with a warning).
\<close>

definition np_true_divide :: "real \<Rightarrow> real \<Rightarrow> npfloat" where
  "np_true_divide a b =
     (if b \<noteq> 0 then Fin (a / b) else if a = 0 then NaN else if 0 < a then PInf else NInf)"

text \<open>The comparison \<^verbatim>\<open><\<close> of floats: every comparison with \<^verbatim>\<open>nan\<close> is false.\<close>

fun fl_lt :: "npfloat \<Rightarrow> npfloat \<Rightarrow> bool" where
  "fl_lt NaN _ = False"
| "fl_lt _ NaN = False"
| "fl_lt (Fin a) (Fin b) = (a < b)"
| "fl_lt (Fin a) PInf = True"
| "fl_lt (Fin a) NInf = False"
| "fl_lt PInf _ = False"
| "fl_lt NInf NInf = False"
| "fl_lt NInf _ = True"

text \<open>The comparison \<^verbatim>\<open><=\<close> and the addition of floats, used to state properties.\<close>

definition fl_le :: "npfloat \<Rightarrow> npfloat \<Rightarrow> bool" where
  "fl_le a b = (a \<noteq> NaN \<and> b \<noteq> NaN \<and> \<not> fl_lt b a)"

fun fl_add :: "npfloat \<Rightarrow> npfloat \<Rightarrow> npfloat" where
  "fl_add NaN _ = NaN"
| "fl_add _ NaN = NaN"
| "fl_add (Fin a) (Fin b) = Fin (a + b)"
| "fl_add PInf NInf = NaN"
| "fl_add NInf PInf = NaN"
| "fl_add PInf _ = PInf"
| "fl_add _ PInf = PInf"
| "fl_add NInf _ = NInf"
| "fl_add _ NInf = NInf"

definition fl_sum :: "npfloat list \<Rightarrow> npfloat" where
  "fl_sum vs = foldl fl_add (Fin 0) vs"

subsection \<open>Model handles\<close>

datatype exn = IndexError | KeyError | Raised string

text \<open>
  A loaded model is an object that may or may not have the attributes the code probes with
  \<^verbatim>\<open>hasattr\<close>: \<^verbatim>\<open>named_steps\<close> (a pipeline's dictionary of steps),
  \<^verbatim>\<open>feature_importances_\<close> (a vector) and \<^verbatim>\<open>coef_\<close> (a matrix). Its
  \<^verbatim>\<open>predict_proba\<close> is opaque: it returns a matrix or raises. The selectors
  \<open>feature_importances\<close> and \<open>coef\<close> stand for the attributes of the same names with
  their trailing underscore.
\<close>

datatype model = Model
  (named_steps: "(string \<times> model) list option")
  (feature_importances: "real list option")
  (coef: "real list list option")
  (predict_proba: "dataframe \<Rightarrow> exn + real list list")

text \<open>Indexing a sequence with a non-negative constant.\<close>

definition py_index :: "'a list \<Rightarrow> nat \<Rightarrow> exn + 'a" where
  "py_index xs n = (if n < length xs then Inr (xs ! n) else Inl IndexError)"

text \<open>\<^verbatim>\<open>d[k]\<close> on a dictionary.\<close>

definition dict_lookup :: "('k \<times> 'v) list \<Rightarrow> 'k \<Rightarrow> exn + 'v" where
  "dict_lookup d k = (case map_of d k of None \<Rightarrow> Inl KeyError | Some v \<Rightarrow> Inr v)"

definition predict_risk :: "model \<Rightarrow> dataframe \<Rightarrow> exn + real" where
  "predict_risk m input_df =
     (case predict_proba m input_df of
        Inl e \<Rightarrow> Inl e
      | Inr proba \<Rightarrow>
          (case py_index proba 0 of
             Inl e \<Rightarrow> Inl e
           | Inr row \<Rightarrow> py_index row 1))"

subsection \<open>Explanation extractor\<close>

text \<open>
  A Python dictionary keeps its keys in insertion order; storing under a key that is
  present replaces the value in place. \<^verbatim>\<open>dict(pairs)\<close> stores the pairs one after
  the other.
\<close>

type_synonym scores = "(string \<times> npfloat) list"

fun dict_set :: "('k \<times> 'v) list \<Rightarrow> 'k \<Rightarrow> 'v \<Rightarrow> ('k \<times> 'v) list" where
  "dict_set [] k v = [(k, v)]"
| "dict_set (kv # d) k v = (if fst kv = k then (k, v) # d else kv # dict_set d k v)"

definition py_dict :: "('k \<times> 'v) list \<Rightarrow> ('k \<times> 'v) list" where
  "py_dict kvs = foldl (\<lambda>d kv. dict_set d (fst kv) (snd kv)) [] kvs"

text \<open>
  \<^verbatim>\<open>sorted(items, key=lambda x: x[1], reverse=True)\<close>: the sort compares keys with
  \<^verbatim>\<open><\<close> only and is stable, and with \<^verbatim>\<open>reverse=True\<close> items of equal key keep
  their original order. On keys that \<^verbatim>\<open><\<close> orders totally this determines the
  result, which the insertion below computes: an item moves behind exactly the items of
  strictly greater key.
\<close>

fun insert_desc :: "string \<times> npfloat \<Rightarrow> scores \<Rightarrow> scores" where
  "insert_desc x [] = [x]"
| "insert_desc x (y # ys) =
     (if fl_lt (snd x) (snd y) then y # insert_desc x ys else x # y # ys)"

fun sorted_reverse :: "scores \<Rightarrow> scores" where
  "sorted_reverse [] = []"
| "sorted_reverse (x # xs) = insert_desc x (sorted_reverse xs)"

definition inner_estimator :: "model \<Rightarrow> model" where
  "inner_estimator m =
     (case named_steps m of
        None \<Rightarrow> m
      | Some steps \<Rightarrow> dict_get steps ''model'' m)"

definition importance_of :: "model \<Rightarrow> exn + npfloat list" where
  "importance_of inner =
     (case feature_importances inner of
        Some imp \<Rightarrow> Inr (map Fin imp)
      | None \<Rightarrow>
          (case coef inner of
             Some c \<Rightarrow>
               (case py_index c 0 of
                  Inl e \<Rightarrow> Inl e
                | Inr row \<Rightarrow>
                    (let importance = map abs row
                     in Inr (map (\<lambda>x. np_true_divide x (sum_list importance)) importance)))
           | None \<Rightarrow> Inr (replicate (length FEATURE_COLUMNS) (Fin 0))))"

definition extract_feature_importance :: "model \<Rightarrow> exn + scores" where
  "extract_feature_importance m =
     (case importance_of (inner_estimator m) of
        Inl e \<Rightarrow> Inl e
      | Inr importance \<Rightarrow>
          (let feature_dict = py_dict (zip FEATURE_COLUMNS importance)
           in Inr (py_dict (sorted_reverse feature_dict))))"

subsection \<open>Session state and the run handler\<close>

record session =
  analysis_run :: bool
  risk_prob :: real
  feature_imp :: scores

definition initial_session :: session where
  "initial_session = \<lparr>analysis_run = False, risk_prob = 0, feature_imp = []\<rparr>"

text \<open>The values of the form widgets in one pass of the script.\<close>

record form =
  w_age :: pynum
  w_gender :: string
  w_cp :: string
  w_trestbps :: pynum
  w_chol :: pynum
  w_thalach :: pynum
  w_glucose :: pynum
  w_restecg :: string
  w_exang :: string
  w_oldpeak :: pynum
  w_slope :: string
  w_ca :: pynum
  w_thal :: string
  w_model_name :: string

datatype message = Error_text string | Error_exn exn

text \<open>The body of the \<^verbatim>\<open>try\<close> block.\<close>

definition evaluate :: "(string \<times> model) list \<Rightarrow> form \<Rightarrow> exn + real \<times> scores" where
  "evaluate all_models f =
     (let input_df = preprocess_inputs (w_age f) (w_gender f) (w_cp f) (w_trestbps f) (w_chol f)
            (w_glucose f) (w_restecg f) (w_thalach f) (w_exang f) (w_oldpeak f) (w_slope f)
            (w_ca f) (w_thal f)
      in case dict_lookup all_models (w_model_name f) of
           Inl e \<Rightarrow> Inl e
         | Inr m \<Rightarrow>
             (case predict_risk m input_df of
                Inl e \<Rightarrow> Inl e
              | Inr prob \<Rightarrow>
                  (case extract_feature_importance m of
                     Inl e \<Rightarrow> Inl e
                   | Inr importance \<Rightarrow> Inr (prob, importance))))"

text \<open>\<^verbatim>\<open>dict(list(importance.items())[:5])\<close>.\<close>

definition top5 :: "scores \<Rightarrow> scores" where
  "top5 importance = py_dict (take 5 importance)"

text \<open>
  The branch of the pressed button. The result is the messages shown, whether the script
  went on (\<^verbatim>\<open>st.stop()\<close> ends the pass), and the session state.
\<close>

definition run_pressed :: "(string \<times> model) list \<Rightarrow> form \<Rightarrow> session \<Rightarrow> message list \<times> bool \<times> session" where
  "run_pressed all_models f s =
     (if w_model_name f \<notin> fst ` set all_models
      then ([Error_text ''Model not loaded properly.''], False, s)
      else case evaluate all_models f of
             Inl e \<Rightarrow> ([Error_text ''Prediction failed.'', Error_exn e], False, s)
           | Inr (prob, importance) \<Rightarrow>
               ([], True,
                s\<lparr>risk_prob := prob, feature_imp := top5 importance, analysis_run := True\<rparr>))"

text \<open>The result panel drawn from the session state.\<close>

record panel =
  percent :: int
  level :: string
  color :: string
  factors :: scores

definition py_int :: "real \<Rightarrow> int" where
  "py_int x = (if 0 \<le> x then \<lfloor>x\<rfloor> else \<lceil>x\<rceil>)"

definition render :: "session \<Rightarrow> panel option" where
  "render s =
     (if analysis_run s
      then (let prob = risk_prob s; lvl = categorize_risk prob
            in Some \<lparr>percent = py_int (prob * 100),
                     level = lvl,
                     color = (if lvl = ''LOW'' then ''#22c55e''
                              else if lvl = ''MODERATE'' then ''#facc15''
                              else ''#ef4444''),
                     factors = feature_imp s\<rparr>)
      else None)"

text \<open>
  One pass of the script: every interaction with the page runs it again, with the button
  pressed or not.
\<close>

datatype action = Run form | Rerun form

record pass =
  messages :: "message list"
  shown :: "panel option"
  state :: session

fun script :: "(string \<times> model) list \<Rightarrow> action \<Rightarrow> session \<Rightarrow> pass" where
  "script all_models (Rerun f) s = \<lparr>messages = [], shown = render s, state = s\<rparr>"
| "script all_models (Run f) s =
     (case run_pressed all_models f s of
        (msgs, go_on, s') \<Rightarrow>
          \<lparr>messages = msgs, shown = (if go_on then render s' else None), state = s'\<rparr>)"

text \<open>A session: the passes of a sequence of actions, from a given state.\<close>

fun session_after :: "(string \<times> model) list \<Rightarrow> action list \<Rightarrow> session \<Rightarrow> session" where
  "session_after all_models [] s = s"
| "session_after all_models (a # as) s =
     session_after all_models as (state (script all_models a s))"

subsection \<open>Notions used to state the properties\<close>

text \<open>
  The sort only ever asks whether one score is strictly less than another. What it
  establishes on its own terms is that no entry is followed, anywhere later, by one of
  strictly greater score; this is an auxiliary notion, weaker than a ranking when scores
  are \<^verbatim>\<open>nan\<close>.
\<close>

definition descending :: "scores \<Rightarrow> bool" where
  "descending d = sorted_wrt (\<lambda>a b. \<not> fl_lt (snd a) (snd b)) d"

text \<open>A list of scores is ranked when each score is at least every later one.\<close>

definition ranked :: "scores \<Rightarrow> bool" where
  "ranked d = sorted_wrt (\<lambda>a b. fl_le (snd b) (snd a)) d"

text \<open>The value of a finite float.\<close>

fun fin_val :: "npfloat \<Rightarrow> real" where
  "fin_val (Fin r) = r"
| "fin_val _ = 0"

text \<open>A set of floats that are all finite, or all \<^verbatim>\<open>nan\<close>.\<close>

definition uniform :: "npfloat set \<Rightarrow> bool" where
  "uniform S = ((\<forall>v\<in>S. \<exists>r. v = Fin r) \<or> (\<forall>v\<in>S. v = NaN))"

text \<open>
  Modelled from the spec: the model artifacts are not among the sources. Section 6 gives
  each handle, optionally, an impurity-importance vector or a linear-coefficient vector of
  length 13, and section 4.3 takes native importances as non-negative. The predicate is
  read on the estimator the extractor inspects.
\<close>

definition handle_ok :: "model \<Rightarrow> bool" where
  "handle_ok m =
     (let inner = inner_estimator m
      in case feature_importances inner of
           Some imp \<Rightarrow> length imp = 13 \<and> list_all (\<lambda>x. 0 \<le> x) imp
         | None \<Rightarrow>
             (case coef inner of
                Some c \<Rightarrow> (case c of [] \<Rightarrow> False | row # _ \<Rightarrow> length row = 13)
              | None \<Rightarrow> True))"

subsection \<open>Concrete handles, forms and sessions\<close>

text \<open>
  A tree model with thirteen importances; a linear model whose thirteen coefficients are
  all zero, as a fit under a strong L1 penalty leaves them (it predicts one half for either
  class); a model whose inference raises.
\<close>

definition tree_model :: model where
  "tree_model =
     Model None
       (Some [0.10, 0.04, 0.15, 0.06, 0.08, 0.01, 0.02, 0.12, 0.07, 0.11, 0.05, 0.13, 0.06])
       None
       (\<lambda>df. Inr [[0.3, 0.7]])"

definition zero_coef_model :: model where
  "zero_coef_model = Model None None (Some [replicate 13 0]) (\<lambda>df. Inr [[0.5, 0.5]])"

definition failing_model :: model where
  "failing_model = Model None None None (\<lambda>df. Inl (Raised ''feature names mismatch''))"

text \<open>The scores of \<open>tree_model\<close>, ranked.\<close>

definition tree_scores :: scores where
  "tree_scores =
     [(''cp'', Fin 0.15), (''ca'', Fin 0.13), (''thalach'', Fin 0.12), (''oldpeak'', Fin 0.11),
      (''age'', Fin 0.10), (''chol'', Fin 0.08), (''exang'', Fin 0.07), (''trestbps'', Fin 0.06),
      (''thal'', Fin 0.06), (''slope'', Fin 0.05), (''sex'', Fin 0.04), (''restecg'', Fin 0.02),
      (''fbs'', Fin 0.01)]"

text \<open>The form with every widget at its default, and a model chosen.\<close>

definition default_form :: "string \<Rightarrow> form" where
  "default_form name =
     \<lparr>w_age = PyInt 45, w_gender = ''Male'', w_cp = ''Typical Angina'', w_trestbps = PyInt 120,
      w_chol = PyInt 190, w_thalach = PyInt 150, w_glucose = PyInt 100, w_restecg = ''Normal'',
      w_exang = ''No'', w_oldpeak = PyFloat 1.0, w_slope = ''Upsloping'', w_ca = PyInt 0,
      w_thal = ''Normal'', w_model_name = name\<rparr>"

definition registry :: "(string \<times> model) list" where
  "registry =
     [(''Decision Tree'', tree_model),
      (''Broken'', failing_model),
      (''Empty'', Model None None (Some []) (\<lambda>df. Inr [[0.4, 0.6]]))]"

definition evaluated_session :: session where
  "evaluated_session =
     \<lparr>analysis_run = True, risk_prob = 0.7,
      feature_imp = [(''cp'', Fin 0.15), (''ca'', Fin 0.13), (''thalach'', Fin 0.12),
                     (''oldpeak'', Fin 0.11), (''age'', Fin 0.10)]\<rparr>"

section \<open>Auxiliary lemmas\<close>

subsection \<open>Dictionaries and the sort\<close>

lemma dict_set_fresh: "k \<notin> fst ` set d \<Longrightarrow> dict_set d k v = d @ [(k, v)]"
  by (induction d) auto

lemma foldl_dict_set_distinct:
  "distinct (map fst (d @ kvs)) \<Longrightarrow>
   foldl (\<lambda>d kv. dict_set d (fst kv) (snd kv)) d kvs = d @ kvs"
proof (induction kvs arbitrary: d)
  case Nil
  then show ?case by simp
next
  case (Cons kv kvs)
  have fresh: "fst kv \<notin> fst ` set d" using Cons.prems by auto
  have "distinct (map fst ((d @ [kv]) @ kvs))" using Cons.prems by simp
  from Cons.IH [OF this] show ?case
    by (simp add: dict_set_fresh [OF fresh])
qed

lemma py_dict_distinct: "distinct (map fst kvs) \<Longrightarrow> py_dict kvs = kvs"
  using foldl_dict_set_distinct [of "[]" kvs] by (simp add: py_dict_def)

lemma length_dict_set: "length (dict_set d k v) \<le> Suc (length d)"
  by (induction d) auto

lemma length_foldl_dict_set:
  "length (foldl (\<lambda>d kv. dict_set d (fst kv) (snd kv)) d kvs) \<le> length d + length kvs"
proof (induction kvs arbitrary: d)
  case Nil
  then show ?case by simp
next
  case (Cons kv kvs)
  have "length (foldl (\<lambda>d kv. dict_set d (fst kv) (snd kv)) (dict_set d (fst kv) (snd kv)) kvs)
      \<le> length (dict_set d (fst kv) (snd kv)) + length kvs"
    by (rule Cons.IH)
  also have "\<dots> \<le> Suc (length d) + length kvs"
    using length_dict_set [of d "fst kv" "snd kv"] by simp
  finally show ?case by simp
qed

lemma length_top5: "length (top5 importance) \<le> 5"
  using length_foldl_dict_set [of "[]" "take 5 importance"]
  by (simp add: top5_def py_dict_def)

lemma mset_insert_desc: "mset (insert_desc x xs) = add_mset x (mset xs)"
  by (induction xs) auto

lemma mset_sorted_reverse: "mset (sorted_reverse xs) = mset xs"
  by (induction xs) (auto simp: mset_insert_desc)

lemma set_insert_desc: "set (insert_desc x xs) = insert x (set xs)"
  by (induction xs) auto

lemma set_sorted_reverse: "set (sorted_reverse xs) = set xs"
  by (induction xs) (auto simp: set_insert_desc)

lemma length_sorted_reverse: "length (sorted_reverse xs) = length xs"
  by (metis mset_sorted_reverse size_mset)

lemma distinct_keys_sorted_reverse:
  "distinct (map fst (sorted_reverse xs)) = distinct (map fst xs)"
proof -
  have "mset (map fst (sorted_reverse xs)) = mset (map fst xs)"
    by (simp add: mset_sorted_reverse)
  then show ?thesis by (rule mset_eq_imp_distinct_iff)
qed

lemma insert_desc_descending:
  "uniform (snd ` set (x # ys)) \<Longrightarrow>
   sorted_wrt (\<lambda>a b. \<not> fl_lt (snd a) (snd b)) ys \<Longrightarrow>
   sorted_wrt (\<lambda>a b. \<not> fl_lt (snd a) (snd b)) (insert_desc x ys)"
proof (induction ys)
  case Nil
  then show ?case by simp
next
  case (Cons y ys)
  have u: "uniform (snd ` set (x # ys))"
    using Cons.prems(1) by (auto simp: uniform_def)
  show ?case
    using Cons.prems Cons.IH [OF u]
    by (fastforce simp: uniform_def set_insert_desc)
qed

lemma sorted_reverse_descending:
  "uniform (snd ` set xs) \<Longrightarrow>
   sorted_wrt (\<lambda>a b. \<not> fl_lt (snd a) (snd b)) (sorted_reverse xs)"
proof (induction xs)
  case Nil
  then show ?case by simp
next
  case (Cons x xs)
  have "uniform (snd ` set xs)" using Cons.prems by (auto simp: uniform_def)
  then have s: "sorted_wrt (\<lambda>a b. \<not> fl_lt (snd a) (snd b)) (sorted_reverse xs)"
    by (rule Cons.IH)
  have "uniform (snd ` set (x # sorted_reverse xs))"
    using Cons.prems by (simp add: set_sorted_reverse)
  from insert_desc_descending [OF this s] show ?case by simp
qed

lemma uniform_subset: "uniform S \<Longrightarrow> T \<subseteq> S \<Longrightarrow> uniform T"
  by (auto simp: uniform_def)

subsection \<open>The importance vector\<close>

lemma sum_abs_nonneg: "0 \<le> sum_list (map abs (row :: real list))"
  by (induction row) auto

lemma sum_abs_zero_iff: "(sum_list (map abs (row :: real list)) = 0) = (\<forall>c\<in>set row. c = 0)"
proof (induction row)
  case Nil
  then show ?case by simp
next
  case (Cons c row)
  have "0 \<le> sum_list (map abs row)" by (rule sum_abs_nonneg)
  then have "(\<bar>c\<bar> + sum_list (map abs row) = 0) = (c = 0 \<and> sum_list (map abs row) = 0)"
    by auto
  with Cons.IH show ?case by simp
qed

lemma sum_list_normalised:
  "s \<noteq> 0 \<Longrightarrow> sum_list (map (\<lambda>c. \<bar>c\<bar> / s) row) = sum_list (map abs (row :: real list)) / s"
  by (induction row) (auto simp: add_divide_distrib)

lemma distinct_FEATURE_COLUMNS: "distinct FEATURE_COLUMNS"
  by (simp add: FEATURE_COLUMNS_def)

lemma length_FEATURE_COLUMNS: "length FEATURE_COLUMNS = 13"
  by (simp add: FEATURE_COLUMNS_def)

lemma distinct_keys_zip: "distinct (map fst (zip FEATURE_COLUMNS v))"
  by (simp add: map_fst_zip_take distinct_FEATURE_COLUMNS)

lemma extract_feature_importance_Inr:
  "extract_feature_importance m = Inr d \<Longrightarrow>
   \<exists>v. importance_of (inner_estimator m) = Inr v \<and> d = sorted_reverse (zip FEATURE_COLUMNS v)"
  by (auto simp: extract_feature_importance_def Let_def py_dict_distinct distinct_keys_zip
      distinct_keys_sorted_reverse split: sum.splits)

lemma extract_feature_importance_of:
  "importance_of (inner_estimator m) = Inr v \<Longrightarrow>
   extract_feature_importance m = Inr (sorted_reverse (zip FEATURE_COLUMNS v))"
  by (simp add: extract_feature_importance_def Let_def py_dict_distinct distinct_keys_zip
      distinct_keys_sorted_reverse)

lemma importance_of_uniform:
  assumes "importance_of inner = Inr v"
  shows "uniform (set v)"
proof (cases "feature_importances inner")
  case (Some imp)
  with assms show ?thesis by (auto simp: importance_of_def uniform_def)
next
  case None
  show ?thesis
  proof (cases "coef inner")
    case None
    with \<open>feature_importances inner = None\<close> assms show ?thesis
      by (auto simp: importance_of_def uniform_def)
  next
    case (Some c)
    with \<open>feature_importances inner = None\<close> assms obtain row where
      v: "v = map (\<lambda>x. np_true_divide x (sum_list (map abs row))) (map abs row)"
      by (auto simp: importance_of_def Let_def split: sum.splits)
    show ?thesis
    proof (cases "sum_list (map abs row) = 0")
      case True
      then have "\<forall>c\<in>set row. c = 0" by (simp add: sum_abs_zero_iff)
      with True v show ?thesis by (auto simp: uniform_def np_true_divide_def)
    next
      case False
      with v show ?thesis by (auto simp: uniform_def np_true_divide_def)
    qed
  qed
qed

lemma importance_of_linear:
  assumes "feature_importances inner = None" and "coef inner = Some (row # rest)"
    and "\<exists>c\<in>set row. c \<noteq> 0"
  shows "importance_of inner = Inr (map (\<lambda>c. Fin (\<bar>c\<bar> / sum_list (map abs row))) row)"
proof -
  have "sum_list (map abs row) \<noteq> 0" using assms(3) by (simp add: sum_abs_zero_iff)
  then show ?thesis using assms(1,2)
    by (simp add: importance_of_def py_index_def Let_def np_true_divide_def comp_def)
qed

lemma extract_descending:
  assumes "extract_feature_importance m = Inr d"
  shows "descending d"
proof -
  from extract_feature_importance_Inr [OF assms] obtain v where
    v: "importance_of (inner_estimator m) = Inr v" and d: "d = sorted_reverse (zip FEATURE_COLUMNS v)"
    by blast
  have "snd ` set (zip FEATURE_COLUMNS v) \<subseteq> set v"
    by (auto dest: set_zip_rightD)
  with importance_of_uniform [OF v] have "uniform (snd ` set (zip FEATURE_COLUMNS v))"
    by (rule uniform_subset)
  then show ?thesis unfolding descending_def d by (rule sorted_reverse_descending)
qed

lemma extract_distinct_keys:
  assumes "extract_feature_importance m = Inr d"
  shows "distinct (map fst d)"
  using extract_feature_importance_Inr [OF assms]
  by (auto simp: distinct_keys_sorted_reverse distinct_keys_zip)

lemma top5_prefix: "distinct (map fst d) \<Longrightarrow> top5 d = take 5 d"
  unfolding top5_def by (rule py_dict_distinct) (simp add: take_map [symmetric])

lemma set_extract:
  assumes "importance_of (inner_estimator m) = Inr v" and "length v = 13"
    and "extract_feature_importance m = Inr d"
  shows "mset (map fst d) = mset FEATURE_COLUMNS \<and> mset (map snd d) = mset v"
proof -
  have d: "d = sorted_reverse (zip FEATURE_COLUMNS v)"
    using extract_feature_importance_of [OF assms(1)] assms(3) by simp
  have len: "length FEATURE_COLUMNS = length v"
    by (simp add: assms(2) length_FEATURE_COLUMNS)
  have "mset (map fst d) = mset (map fst (zip FEATURE_COLUMNS v))"
    by (simp add: d mset_sorted_reverse)
  moreover have "mset (map snd d) = mset (map snd (zip FEATURE_COLUMNS v))"
    by (simp add: d mset_sorted_reverse)
  ultimately show ?thesis using len by (simp only: map_fst_zip map_snd_zip simp_thms)
qed

lemma lookup_extract:
  assumes v: "importance_of (inner_estimator m) = Inr v" and l: "length v = 13"
    and i: "i < 13"
  shows "map_of (sorted_reverse (zip FEATURE_COLUMNS v)) (FEATURE_COLUMNS ! i) = Some (v ! i)"
proof -
  let ?d = "sorted_reverse (zip FEATURE_COLUMNS v)"
  have "distinct (map fst ?d)"
    by (simp add: distinct_keys_sorted_reverse distinct_keys_zip)
  moreover have "(FEATURE_COLUMNS ! i, v ! i) \<in> set ?d"
    using i l by (auto simp: set_sorted_reverse set_zip length_FEATURE_COLUMNS)
  ultimately show ?thesis by simp
qed

lemma foldl_fl_add_Fin: "foldl fl_add (Fin a) (map Fin rs) = Fin (a + sum_list rs)"
  by (induction rs arbitrary: a) (auto simp: add.assoc)

lemma fl_sum_Fin: "fl_sum (map Fin rs) = Fin (sum_list rs)"
  by (simp add: fl_sum_def foldl_fl_add_Fin)

lemma fl_sum_permuted:
  assumes "mset xs = mset (map Fin ws)"
  shows "fl_sum xs = Fin (sum_list ws)"
proof -
  have "set xs = set (map Fin ws)" using assms by (rule mset_eq_setD)
  then have "\<forall>x\<in>set xs. Fin (fin_val x) = x" by auto
  then have xs: "map Fin (map fin_val xs) = xs" by (simp add: map_idI)
  have "mset (map fin_val xs) = image_mset fin_val (mset (map Fin ws))"
    using assms by simp
  also have "\<dots> = mset ws" by (simp add: image_mset.compositionality comp_def)
  finally have "sum_list (map fin_val xs) = sum_list ws"
    by (metis sum_mset_sum_list)
  with fl_sum_Fin [of "map fin_val xs"] xs show ?thesis by simp
qed

subsection \<open>The concrete handles\<close>

lemma zero_coef_importance:
  "importance_of (inner_estimator zero_coef_model) = Inr (replicate 13 NaN)"
  by (simp add: zero_coef_model_def inner_estimator_def importance_of_def py_index_def
      np_true_divide_def numeral_eq_Suc)

lemma zero_coef_extract:
  "extract_feature_importance zero_coef_model = Inr (zip FEATURE_COLUMNS (replicate 13 NaN))"
proof -
  have "sorted_reverse (zip FEATURE_COLUMNS (replicate 13 NaN)) = zip FEATURE_COLUMNS (replicate 13 NaN)"
    by (simp add: FEATURE_COLUMNS_def numeral_eq_Suc)
  with extract_feature_importance_of [OF zero_coef_importance] show ?thesis by simp
qed

lemma tree_model_extract: "extract_feature_importance tree_model = Inr tree_scores"
  by (simp add: extract_feature_importance_def tree_model_def inner_estimator_def
      importance_of_def FEATURE_COLUMNS_def py_dict_def tree_scores_def)

lemma evaluate_broken:
  "evaluate registry (default_form ''Broken'') = Inl (Raised ''feature names mismatch'')"
  by (simp add: evaluate_def registry_def default_form_def dict_lookup_def predict_risk_def
      failing_model_def)

lemma evaluate_empty: "evaluate registry (default_form ''Empty'') = Inl IndexError"
  by (simp add: evaluate_def registry_def default_form_def dict_lookup_def predict_risk_def
      py_index_def extract_feature_importance_def inner_estimator_def importance_of_def)

lemma evaluate_tree:
  "evaluate registry (default_form ''Decision Tree'') = Inr (0.7, tree_scores)"
proof -
  have "predict_risk tree_model df = Inr 0.7" for df
    by (simp add: predict_risk_def tree_model_def py_index_def)
  then show ?thesis
    by (simp add: evaluate_def registry_def default_form_def dict_lookup_def tree_model_extract)
qed

lemma top5_tree_scores: "top5 tree_scores = feature_imp evaluated_session"
  by (simp add: top5_def py_dict_def tree_scores_def evaluated_session_def)

subsection \<open>Passes of the script\<close>

lemma script_Run_cases:
  "state (script all_models (Run f) s) = s \<or>
   (\<exists>prob importance. evaluate all_models f = Inr (prob, importance) \<and>
      state (script all_models (Run f) s)
        = s\<lparr>risk_prob := prob, feature_imp := top5 importance, analysis_run := True\<rparr>)"
  by (auto simp: run_pressed_def split: sum.splits)

lemma script_changes:
  "state (script all_models a s) \<noteq> s \<Longrightarrow> analysis_run (state (script all_models a s))"
  by (cases a) (auto simp: run_pressed_def split: sum.splits if_splits)

lemma script_keeps_evaluated: "analysis_run s \<Longrightarrow> analysis_run (state (script all_models a s))"
  by (cases a) (auto simp: run_pressed_def split: sum.splits)

lemma script_short_list:
  "length (feature_imp s) \<le> 5 \<Longrightarrow> length (feature_imp (state (script all_models a s))) \<le> 5"
  by (cases a) (auto simp: run_pressed_def length_top5 split: sum.splits)

lemma session_after_keeps_evaluated:
  "analysis_run s \<Longrightarrow> analysis_run (session_after all_models acts s)"
  by (induction acts arbitrary: s) (auto simp: script_keeps_evaluated)

lemma session_after_short_list:
  "length (feature_imp s) \<le> 5 \<Longrightarrow> length (feature_imp (session_after all_models acts s)) \<le> 5"
  by (induction acts arbitrary: s) (auto simp: script_short_list)

lemma session_after_idle_or_evaluated:
  "session_after all_models acts s = s \<or> analysis_run (session_after all_models acts s)"
proof (induction acts arbitrary: s)
  case Nil
  then show ?case by simp
next
  case (Cons a acts)
  show ?case
  proof (cases "state (script all_models a s) = s")
    case True
    with Cons.IH [of s] show ?thesis by simp
  next
    case False
    then have "analysis_run (state (script all_models a s))"
      by (rule script_changes)
    then show ?thesis by (simp add: session_after_keeps_evaluated)
  qed
qed

subsection \<open>The extractor on scores that are numbers\<close>

text \<open>
  When the importance vector of a handle has thirteen entries and none of them is
  \<^verbatim>\<open>nan\<close>, the mapping returned is a rearrangement of the feature names paired with
  that vector, it is ranked, the caller keeps its first five entries, and every score
  left out is at most every score kept.
\<close>

lemma extract_ranks_numeric_scores:
  assumes v: "importance_of (inner_estimator m) = Inr v" and l: "length v = 13"
    and n: "NaN \<notin> set v"
  shows "\<exists>d. extract_feature_importance m = Inr d
           \<and> mset d = mset (zip FEATURE_COLUMNS v)
           \<and> ranked d \<and> top5 d = take 5 d \<and> length (top5 d) = 5
           \<and> (\<forall>a\<in>set (top5 d). \<forall>b\<in>set (drop 5 d). fl_le (snd b) (snd a))"
proof -
  let ?d = "sorted_reverse (zip FEATURE_COLUMNS v)"
  have e: "extract_feature_importance m = Inr ?d" using v by (rule extract_feature_importance_of)
  have nn: "\<forall>kv\<in>set ?d. snd kv \<noteq> NaN"
  proof
    fix kv assume "kv \<in> set ?d"
    then have "(fst kv, snd kv) \<in> set (zip FEATURE_COLUMNS v)" by (simp add: set_sorted_reverse)
    then have "snd kv \<in> set v" by (rule set_zip_rightD)
    with n show "snd kv \<noteq> NaN" by auto
  qed
  have r: "ranked ?d"
    using extract_descending [OF e] nn unfolding descending_def ranked_def
    by (auto simp: fl_le_def elim: sorted_wrt_mono_rel [rotated])
  have t: "top5 ?d = take 5 ?d" using extract_distinct_keys [OF e] by (rule top5_prefix)
  have len: "length (top5 ?d) = 5"
    by (simp add: t length_sorted_reverse l length_FEATURE_COLUMNS)
  have "sorted_wrt (\<lambda>a b. fl_le (snd b) (snd a)) (take 5 ?d @ drop 5 ?d)"
    using r by (simp add: ranked_def)
  then have "\<forall>a\<in>set (top5 ?d). \<forall>b\<in>set (drop 5 ?d). fl_le (snd b) (snd a)"
    unfolding sorted_wrt_append t by blast
  with e r t len show ?thesis by (blast intro: mset_sorted_reverse)
qed

text \<open>A model that exposes neither importances nor coefficients gets thirteen zeros.\<close>

lemma extract_without_importance:
  assumes "feature_importances (inner_estimator m) = None" and "coef (inner_estimator m) = None"
  shows "extract_feature_importance m = Inr (zip FEATURE_COLUMNS (replicate 13 (Fin 0)))"
proof -
  have "importance_of (inner_estimator m) = Inr (replicate 13 (Fin 0))"
    using assms by (simp add: importance_of_def length_FEATURE_COLUMNS)
  then have "extract_feature_importance m
      = Inr (sorted_reverse (zip FEATURE_COLUMNS (replicate 13 (Fin 0))))"
    by (rule extract_feature_importance_of)
  moreover have "sorted_reverse (zip FEATURE_COLUMNS (replicate 13 (Fin 0)))
      = zip FEATURE_COLUMNS (replicate 13 (Fin 0))"
    by (simp add: FEATURE_COLUMNS_def numeral_eq_Suc)
  ultimately show ?thesis by simp
qed

text \<open>
  On a coefficient row of thirteen entries with a nonzero one among them, the linear branch
  computes the L1 normalisation, and the scores sum to 1.
\<close>

lemma linear_branch_l1_normalised:
  assumes "feature_importances (inner_estimator m) = None"
    and "coef (inner_estimator m) = Some (row # rest)"
    and "length row = 13"
    and "\<exists>c\<in>set row. c \<noteq> 0"
  shows "\<exists>d. extract_feature_importance m = Inr d
           \<and> (\<forall>i<13. map_of d (FEATURE_COLUMNS ! i)
                        = Some (Fin (\<bar>row ! i\<bar> / sum_list (map abs row))))
           \<and> fl_sum (map snd d) = Fin 1"
proof -
  let ?s = "sum_list (map abs row)"
  let ?ws = "map (\<lambda>c. \<bar>c\<bar> / ?s) row"
  let ?d = "sorted_reverse (zip FEATURE_COLUMNS (map Fin ?ws))"
  have s: "?s \<noteq> 0" using assms(4) by (simp add: sum_abs_zero_iff)
  have v: "importance_of (inner_estimator m) = Inr (map Fin ?ws)"
    using importance_of_linear [OF assms(1,2,4)] by (simp add: comp_def)
  have l: "length (map Fin ?ws) = 13" using assms(3) by simp
  have e: "extract_feature_importance m = Inr ?d" using v by (rule extract_feature_importance_of)
  have look: "\<forall>i<13. map_of ?d (FEATURE_COLUMNS ! i) = Some (Fin (\<bar>row ! i\<bar> / ?s))"
  proof (intro allI impI)
    fix i :: nat assume i: "i < 13"
    from lookup_extract [OF v l i] show "map_of ?d (FEATURE_COLUMNS ! i) = Some (Fin (\<bar>row ! i\<bar> / ?s))"
      using i assms(3) by simp
  qed
  have "mset (map snd ?d) = mset (map Fin ?ws)"
    using set_extract [OF v l e] by simp
  then have "fl_sum (map snd ?d) = Fin (sum_list ?ws)" by (rule fl_sum_permuted)
  also have "sum_list ?ws = 1" using s by (simp add: sum_list_normalised)
  finally have "fl_sum (map snd ?d) = Fin 1" .
  with e look show ?thesis by blast
qed

section \<open>Properties\<close>

subsection \<open>Claims on the encoder and the risk tiers\<close>

text \<open>
  C1. The tier of a probability is the step function with thresholds 0.40 and 0.70:
  below 0.40 it is LOW, from 0.40 up to but excluding 0.70 it is MODERATE, from 0.70 on it
  is HIGH; 0.39 is LOW, 0.40 and 0.69 are MODERATE, 0.70 is HIGH.
\<close>

theorem categorize_risk_step:
  "(p < 0.40 \<longrightarrow> categorize_risk p = ''LOW'')
   \<and> (0.40 \<le> p \<and> p < 0.70 \<longrightarrow> categorize_risk p = ''MODERATE'')
   \<and> (0.70 \<le> p \<longrightarrow> categorize_risk p = ''HIGH'')
   \<and> categorize_risk 0.39 = ''LOW''
   \<and> categorize_risk 0.40 = ''MODERATE''
   \<and> categorize_risk 0.69 = ''MODERATE''
   \<and> categorize_risk 0.70 = ''HIGH''"
  by (simp add: categorize_risk_def)

theorem categorize_risk_step_witness:
  "((0.2::real) < 0.40 \<and> categorize_risk 0.2 = ''LOW'')
   \<and> ((0.40::real) \<le> 0.5 \<and> (0.5::real) < 0.70 \<and> categorize_risk 0.5 = ''MODERATE'')
   \<and> ((0.70::real) \<le> 0.85 \<and> categorize_risk 0.85 = ''HIGH'')"
  using categorize_risk_step [of "0.2"] categorize_risk_step [of "0.5"]
    categorize_risk_step [of "0.85"]
  by simp

text \<open>
  C2. The default form values (age 45, Male, Typical Angina, pressure 120, cholesterol
  190, glucose 100, Normal ECG, heart rate 150, no exercise angina, ST depression 1.0,
  Upsloping, 0 vessels, Normal thalassemia) are encoded as the row
  45, 1, 1, 120, 190, 0, 0, 150, 0, 1.0, 1, 0, 3 under the thirteen column names in their
  fixed order; the cells written with \<^verbatim>\<open>float(...)\<close> are floats, the others ints.
\<close>

theorem preprocess_inputs_scenario_1:
  "preprocess_inputs (PyInt 45) ''Male'' ''Typical Angina'' (PyInt 120) (PyInt 190) (PyInt 100)
      ''Normal'' (PyInt 150) ''No'' (PyFloat 1.0) ''Upsloping'' (PyInt 0) ''Normal''
    = [(''age'', PyFloat 45), (''sex'', PyInt 1), (''cp'', PyInt 1), (''trestbps'', PyFloat 120),
       (''chol'', PyFloat 190), (''fbs'', PyInt 0), (''restecg'', PyInt 0),
       (''thalach'', PyFloat 150), (''exang'', PyInt 0), (''oldpeak'', PyFloat 1.0),
       (''slope'', PyInt 1), (''ca'', PyFloat 0), (''thal'', PyInt 3)]
   \<and> row_values
        (preprocess_inputs (PyInt 45) ''Male'' ''Typical Angina'' (PyInt 120) (PyInt 190)
           (PyInt 100) ''Normal'' (PyInt 150) ''No'' (PyFloat 1.0) ''Upsloping'' (PyInt 0)
           ''Normal'')
    = [45, 1, 1, 120, 190, 0, 0, 150, 0, 1.0, 1, 0, 3]
   \<and> map fst
        (preprocess_inputs (PyInt 45) ''Male'' ''Typical Angina'' (PyInt 120) (PyInt 190)
           (PyInt 100) ''Normal'' (PyInt 150) ''No'' (PyFloat 1.0) ''Upsloping'' (PyInt 0)
           ''Normal'')
    = [''age'', ''sex'', ''cp'', ''trestbps'', ''chol'', ''fbs'', ''restecg'', ''thalach'',
       ''exang'', ''oldpeak'', ''slope'', ''ca'', ''thal'']"
  by (simp add: preprocess_inputs_def processed_def FEATURE_COLUMNS_def row_values_def
      py_float_def cp_code_def restecg_code_def slope_code_def thal_code_def dict_get_def
      cp_map_def restecg_map_def slope_map_def thal_map_def)

text \<open>
  C3. Whatever the other inputs are, the cell of column \<open>fbs\<close> is the integer 1 when the
  glucose value is strictly greater than 120 and the integer 0 otherwise: it is 1 exactly
  when glucose exceeds 120. Glucose 150 gives 1, glucose 120 gives 0.
\<close>

theorem fbs_flag_threshold:
  "column (preprocess_inputs age gender cp trestbps chol glucose restecg thalach exang oldpeak
      slope ca thal) ''fbs''
    = Some (PyInt (if num_val glucose > 120 then 1 else 0))
   \<and> (column (preprocess_inputs age gender cp trestbps chol glucose restecg thalach exang oldpeak
         slope ca thal) ''fbs'' = Some (PyInt 1)) = (num_val glucose > 120)
   \<and> (column (preprocess_inputs age gender cp trestbps chol glucose restecg thalach exang oldpeak
         slope ca thal) ''fbs'' = Some (PyInt 0)) = (\<not> num_val glucose > 120)
   \<and> processed age gender cp trestbps chol glucose restecg thalach exang oldpeak slope ca thal ! 5
    = PyInt (if num_val glucose > 120 then 1 else 0)
   \<and> column (preprocess_inputs age gender cp trestbps chol (PyInt 150) restecg thalach exang
        oldpeak slope ca thal) ''fbs'' = Some (PyInt 1)
   \<and> column (preprocess_inputs age gender cp trestbps chol (PyInt 120) restecg thalach exang
        oldpeak slope ca thal) ''fbs'' = Some (PyInt 0)"
  by (simp add: column_def preprocess_inputs_def processed_def FEATURE_COLUMNS_def Let_def)

text \<open>
  C4. Each of the four categorical encodings is defined on every string: a string of the
  table gets the code the table gives it, and any other string gets the default, 4 for the
  chest-pain type, 0 for the resting ECG, 2 for the ST slope and 3 for thalassemia. The
  codes are the corresponding cells of the encoded row.
\<close>

theorem categorical_codes_total:
  "(cp \<in> fst ` set cp_map \<longrightarrow> map_of cp_map cp = Some (cp_code cp))
   \<and> (cp \<notin> fst ` set cp_map \<longrightarrow> cp_code cp = 4)
   \<and> (restecg \<in> fst ` set restecg_map \<longrightarrow> map_of restecg_map restecg = Some (restecg_code restecg))
   \<and> (restecg \<notin> fst ` set restecg_map \<longrightarrow> restecg_code restecg = 0)
   \<and> (slope \<in> fst ` set slope_map \<longrightarrow> map_of slope_map slope = Some (slope_code slope))
   \<and> (slope \<notin> fst ` set slope_map \<longrightarrow> slope_code slope = 2)
   \<and> (thal \<in> fst ` set thal_map \<longrightarrow> map_of thal_map thal = Some (thal_code thal))
   \<and> (thal \<notin> fst ` set thal_map \<longrightarrow> thal_code thal = 3)
   \<and> map (\<lambda>c. column (preprocess_inputs age gender cp trestbps chol glucose restecg thalach
              exang oldpeak slope ca thal) c) [''cp'', ''restecg'', ''slope'', ''thal'']
      = [Some (PyInt (cp_code cp)), Some (PyInt (restecg_code restecg)),
         Some (PyInt (slope_code slope)), Some (PyInt (thal_code thal))]"
proof -
  have in_table: "k \<in> fst ` set d \<Longrightarrow> map_of d k = Some (dict_get d k dflt)"
    for k :: string and d :: "(string \<times> int) list" and dflt
    by (cases "map_of d k") (auto simp: dict_get_def map_of_eq_None_iff)
  have off_table: "k \<notin> fst ` set d \<Longrightarrow> dict_get d k dflt = dflt"
    for k :: string and d :: "(string \<times> int) list" and dflt
    by (simp add: dict_get_def map_of_eq_None_iff [THEN iffD2])
  have cells: "map (\<lambda>c. column (preprocess_inputs age gender cp trestbps chol glucose restecg
        thalach exang oldpeak slope ca thal) c) [''cp'', ''restecg'', ''slope'', ''thal'']
      = [Some (PyInt (cp_code cp)), Some (PyInt (restecg_code restecg)),
         Some (PyInt (slope_code slope)), Some (PyInt (thal_code thal))]"
    by (simp add: column_def preprocess_inputs_def processed_def FEATURE_COLUMNS_def Let_def)
  show ?thesis
    unfolding cp_code_def restecg_code_def slope_code_def thal_code_def
    using in_table off_table cells
    unfolding cp_code_def restecg_code_def slope_code_def thal_code_def
    by blast
qed

theorem categorical_codes_total_witness:
  "(''Non-anginal Pain'' \<in> fst ` set cp_map \<and> cp_code ''Non-anginal Pain'' = 3)
   \<and> (''Chest cold'' \<notin> fst ` set cp_map \<and> cp_code ''Chest cold'' = 4)
   \<and> (''LV hypertrophy'' \<in> fst ` set restecg_map \<and> restecg_code ''LV hypertrophy'' = 2)
   \<and> (''Paced'' \<notin> fst ` set restecg_map \<and> restecg_code ''Paced'' = 0)
   \<and> (''Downsloping'' \<in> fst ` set slope_map \<and> slope_code ''Downsloping'' = 3)
   \<and> (''Steep'' \<notin> fst ` set slope_map \<and> slope_code ''Steep'' = 2)
   \<and> (''Reversible Defect'' \<in> fst ` set thal_map \<and> thal_code ''Reversible Defect'' = 7)
   \<and> (''Unknown'' \<notin> fst ` set thal_map \<and> thal_code ''Unknown'' = 3)"
proof -
  have tab: "''Non-anginal Pain'' \<in> fst ` set cp_map" "''LV hypertrophy'' \<in> fst ` set restecg_map"
    "''Downsloping'' \<in> fst ` set slope_map" "''Reversible Defect'' \<in> fst ` set thal_map"
    by (simp_all add: cp_map_def restecg_map_def slope_map_def thal_map_def)
  have off: "''Chest cold'' \<notin> fst ` set cp_map" "''Paced'' \<notin> fst ` set restecg_map"
    "''Steep'' \<notin> fst ` set slope_map" "''Unknown'' \<notin> fst ` set thal_map"
    by (simp_all add: cp_map_def restecg_map_def slope_map_def thal_map_def)
  have vals: "map_of cp_map ''Non-anginal Pain'' = Some 3"
    "map_of restecg_map ''LV hypertrophy'' = Some 2"
    "map_of slope_map ''Downsloping'' = Some 3"
    "map_of thal_map ''Reversible Defect'' = Some 7"
    by (simp_all add: cp_map_def restecg_map_def slope_map_def thal_map_def)
  from tab off vals
    categorical_codes_total [of "''Non-anginal Pain''" "''LV hypertrophy''" "''Downsloping''"
      "''Reversible Defect''"]
    categorical_codes_total [of "''Chest cold''" "''Paced''" "''Steep''" "''Unknown''"]
  show ?thesis by simp
qed

subsection \<open>Claims on the explanation extractor\<close>

text \<open>
  The four claims below are evaluated at one handle: a linear model whose thirteen
  coefficients are all zero. The sum of their absolute values is 0, the division of the
  linear branch is 0/0 for every feature, and numpy returns \<^verbatim>\<open>nan\<close> thirteen times
  without raising. The branch has no guard for this row, while the branch next to it
  gives a model without importance data thirteen zeros.
\<close>

text \<open>
  C5. The claim asks that for every model handle the returned mapping be sorted in
  descending order of score and that the five displayed pairs carry the five greatest
  scores. At the handle with thirteen zero coefficients, which has the shape of a model
  handle, the extractor returns the thirteen feature names in their column order, each with
  \<^verbatim>\<open>nan\<close>; the caller displays the first five columns. No \<^verbatim>\<open>nan\<close> is at least
  another, so the mapping is not ranked.
\<close>

theorem zero_coefficients_not_ranked:
  "handle_ok zero_coef_model
   \<and> extract_feature_importance zero_coef_model = Inr (zip FEATURE_COLUMNS (replicate 13 NaN))
   \<and> top5 (zip FEATURE_COLUMNS (replicate 13 NaN))
      = [(''age'', NaN), (''sex'', NaN), (''cp'', NaN), (''trestbps'', NaN), (''chol'', NaN)]
   \<and> \<not> ranked (zip FEATURE_COLUMNS (replicate 13 NaN))
   \<and> \<not> ranked (top5 (zip FEATURE_COLUMNS (replicate 13 NaN)))
   \<and> \<not> fl_le NaN NaN"
proof -
  have h: "handle_ok zero_coef_model"
    by (simp add: handle_ok_def zero_coef_model_def inner_estimator_def)
  have z: "zip FEATURE_COLUMNS (replicate 13 NaN)
      = [(''age'', NaN), (''sex'', NaN), (''cp'', NaN), (''trestbps'', NaN), (''chol'', NaN),
         (''fbs'', NaN), (''restecg'', NaN), (''thalach'', NaN), (''exang'', NaN),
         (''oldpeak'', NaN), (''slope'', NaN), (''ca'', NaN), (''thal'', NaN)]"
    by (simp add: FEATURE_COLUMNS_def numeral_eq_Suc)
  have t: "top5 (zip FEATURE_COLUMNS (replicate 13 NaN))
      = [(''age'', NaN), (''sex'', NaN), (''cp'', NaN), (''trestbps'', NaN), (''chol'', NaN)]"
    unfolding z by (simp add: top5_def py_dict_def)
  have r: "\<not> ranked (zip FEATURE_COLUMNS (replicate 13 NaN))"
    unfolding z by (simp add: ranked_def fl_le_def)
  have r5: "\<not> ranked (top5 (zip FEATURE_COLUMNS (replicate 13 NaN)))"
    unfolding t by (simp add: ranked_def fl_le_def)
  have "\<not> fl_le NaN NaN" by (simp add: fl_le_def)
  with h zero_coef_extract t r r5 show ?thesis by simp
qed

text \<open>
  C6. The claim asks that for every model handle the output have thirteen entries, each of
  them non-negative. At the handle with thirteen zero coefficients the output has thirteen
  entries and each of them is \<^verbatim>\<open>nan\<close>, which is not at least 0.
\<close>

theorem zero_coefficients_not_nonneg:
  "handle_ok zero_coef_model
   \<and> extract_feature_importance zero_coef_model = Inr (zip FEATURE_COLUMNS (replicate 13 NaN))
   \<and> length (zip FEATURE_COLUMNS (replicate 13 NaN)) = 13
   \<and> snd ` set (zip FEATURE_COLUMNS (replicate 13 NaN)) = {NaN}
   \<and> \<not> fl_le (Fin 0) NaN"
proof -
  have h: "handle_ok zero_coef_model"
    by (simp add: handle_ok_def zero_coef_model_def inner_estimator_def)
  have "length (zip FEATURE_COLUMNS (replicate 13 NaN)) = 13"
    "snd ` set (zip FEATURE_COLUMNS (replicate 13 NaN)) = {NaN}"
    by (simp_all add: FEATURE_COLUMNS_def numeral_eq_Suc)
  moreover have "\<not> fl_le (Fin 0) NaN" by (simp add: fl_le_def)
  ultimately show ?thesis using h zero_coef_extract by simp
qed

text \<open>
  C7. The claim asks that for every model with linear coefficients and no native
  importances the thirteen scores be the L1-normalised absolute coefficients and sum to 1.
  At the handle with thirteen zero coefficients every score is \<^verbatim>\<open>nan\<close>, and so is
  their sum.
\<close>

theorem zero_coefficients_sum_nan:
  "feature_importances (inner_estimator zero_coef_model) = None
   \<and> coef (inner_estimator zero_coef_model) = Some [replicate 13 0]
   \<and> extract_feature_importance zero_coef_model = Inr (zip FEATURE_COLUMNS (replicate 13 NaN))
   \<and> fl_sum (map snd (zip FEATURE_COLUMNS (replicate 13 NaN))) = NaN
   \<and> fl_sum (map snd (zip FEATURE_COLUMNS (replicate 13 NaN))) \<noteq> Fin 1"
  by (simp add: zero_coef_extract)
     (simp add: zero_coef_model_def inner_estimator_def FEATURE_COLUMNS_def fl_sum_def
       numeral_eq_Suc)

text \<open>
  C10. The claim asks that the normalising division never divide by zero. The handle with
  thirteen zero coefficients reaches the linear branch, the sum of the absolute values of
  its coefficient row is 0, the division is 0/0, and each of the thirteen entries of the
  importance vector is \<^verbatim>\<open>nan\<close>.
\<close>

theorem zero_coefficients_divide_by_zero:
  "feature_importances (inner_estimator zero_coef_model) = None
   \<and> coef (inner_estimator zero_coef_model) = Some (replicate 13 0 # [])
   \<and> sum_list (map abs (replicate 13 (0::real))) = 0
   \<and> np_true_divide \<bar>0\<bar> (sum_list (map abs (replicate 13 (0::real)))) = NaN
   \<and> importance_of (inner_estimator zero_coef_model) = Inr (replicate 13 NaN)"
  by (simp add: zero_coef_importance)
     (simp add: zero_coef_model_def inner_estimator_def np_true_divide_def sum_list_replicate)

subsection \<open>Claims on the session\<close>

text \<open>
  C8, as amended. When the chosen model is loaded and the body of the \<^verbatim>\<open>try\<close> block
  raises an exception, the pass shows the message \<open>Prediction failed.\<close> followed by the
  exception, and the session state after the pass is the state before it: the flag, the
  probability and the importance map are unchanged. The pass ends at \<^verbatim>\<open>st.stop()\<close>,
  so it draws no result panel, also when a result is stored; the next pass draws the
  panel of the stored result as a pass before the attempt would have.
\<close>

theorem failed_run_keeps_session:
  assumes "w_model_name f \<in> fst ` set all_models"
    and "evaluate all_models f = Inl e"
  shows "messages (script all_models (Run f) s) = [Error_text ''Prediction failed.'', Error_exn e]
         \<and> state (script all_models (Run f) s) = s
         \<and> analysis_run (state (script all_models (Run f) s)) = analysis_run s
         \<and> risk_prob (state (script all_models (Run f) s)) = risk_prob s
         \<and> feature_imp (state (script all_models (Run f) s)) = feature_imp s
         \<and> shown (script all_models (Run f) s) = None
         \<and> shown (script all_models (Rerun g) (state (script all_models (Run f) s)))
            = shown (script all_models (Rerun g) s)"
  using assms by (simp add: run_pressed_def)

theorem failed_run_keeps_session_witness:
  "w_model_name (default_form ''Broken'') \<in> fst ` set registry
   \<and> evaluate registry (default_form ''Broken'') = Inl (Raised ''feature names mismatch'')
   \<and> messages (script registry (Run (default_form ''Broken'')) evaluated_session)
      = [Error_text ''Prediction failed.'', Error_exn (Raised ''feature names mismatch'')]
   \<and> state (script registry (Run (default_form ''Broken'')) evaluated_session)
      = evaluated_session
   \<and> shown (script registry (Run (default_form ''Broken'')) evaluated_session) = None
   \<and> shown (script registry (Rerun (default_form ''Decision Tree''))
        (state (script registry (Run (default_form ''Broken'')) evaluated_session)))
      = shown (script registry (Rerun (default_form ''Decision Tree'')) evaluated_session)
   \<and> w_model_name (default_form ''Empty'') \<in> fst ` set registry
   \<and> evaluate registry (default_form ''Empty'') = Inl IndexError
   \<and> messages (script registry (Run (default_form ''Empty'')) initial_session)
      = [Error_text ''Prediction failed.'', Error_exn IndexError]
   \<and> state (script registry (Run (default_form ''Empty'')) initial_session) = initial_session
   \<and> shown (script registry (Run (default_form ''Empty'')) initial_session) = None"
proof -
  have a: "w_model_name (default_form ''Broken'') \<in> fst ` set registry"
    "w_model_name (default_form ''Empty'') \<in> fst ` set registry"
    by (simp_all add: default_form_def registry_def)
  from failed_run_keeps_session [OF a(1) evaluate_broken, of evaluated_session
      "default_form ''Decision Tree''"]
    failed_run_keeps_session [OF a(2) evaluate_empty, of initial_session
      "default_form ''Decision Tree''"]
    a evaluate_broken evaluate_empty
  show ?thesis by simp
qed

text \<open>
  The claim as stated ends with the prior displayed result being unaffected. With a result
  stored, a pass without the button draws its panel; the failing run, from the same state,
  draws none.
\<close>

theorem failed_run_draws_no_panel:
  "w_model_name (default_form ''Broken'') \<in> fst ` set registry
   \<and> evaluate registry (default_form ''Broken'') = Inl (Raised ''feature names mismatch'')
   \<and> shown (script registry (Rerun (default_form ''Broken'')) evaluated_session)
      = Some \<lparr>percent = 70, level = ''HIGH'', color = ''#ef4444'',
              factors = [(''cp'', Fin 0.15), (''ca'', Fin 0.13), (''thalach'', Fin 0.12),
                         (''oldpeak'', Fin 0.11), (''age'', Fin 0.10)]\<rparr>
   \<and> shown (script registry (Run (default_form ''Broken'')) evaluated_session) = None"
proof -
  have m: "w_model_name (default_form ''Broken'') \<in> fst ` set registry"
    by (simp add: default_form_def registry_def)
  have "shown (script registry (Rerun (default_form ''Broken'')) evaluated_session)
      = Some \<lparr>percent = 70, level = ''HIGH'', color = ''#ef4444'',
              factors = [(''cp'', Fin 0.15), (''ca'', Fin 0.13), (''thalach'', Fin 0.12),
                         (''oldpeak'', Fin 0.11), (''age'', Fin 0.10)]\<rparr>"
    by (simp add: render_def evaluated_session_def categorize_risk_def py_int_def)
  moreover have "shown (script registry (Run (default_form ''Broken'')) evaluated_session) = None"
    using m by (simp add: run_pressed_def evaluate_broken)
  ultimately show ?thesis using m evaluate_broken by simp
qed

text \<open>
  C9. A pass without the button leaves the session state as it is. A pass changes the
  state only when it is a run whose evaluation succeeds, and then the state holds that
  run's probability and the first five entries of its importance map, with the flag set. A
  successful run overwrites whatever was stored. Once the flag is set, no sequence of
  actions clears it; from the initial state every sequence of actions ends either in the
  initial state or in a state with the flag set, and the stored map never has more than
  five entries.
\<close>

theorem session_transitions:
  "state (script all_models (Rerun f) s) = s
   \<and> (state (script all_models a s) \<noteq> s \<longrightarrow>
        (\<exists>g prob importance. a = Run g \<and> evaluate all_models g = Inr (prob, importance)
           \<and> state (script all_models a s)
              = s\<lparr>risk_prob := prob, feature_imp := top5 importance, analysis_run := True\<rparr>
           \<and> analysis_run (state (script all_models a s))))
   \<and> (evaluate all_models f = Inr (prob, importance) \<longrightarrow>
        state (script all_models (Run f) s)
          = \<lparr>analysis_run = True, risk_prob = prob, feature_imp = top5 importance\<rparr>)
   \<and> (analysis_run s \<longrightarrow> analysis_run (session_after all_models acts s))
   \<and> (session_after all_models acts initial_session = initial_session
        \<or> analysis_run (session_after all_models acts initial_session))
   \<and> length (feature_imp (session_after all_models acts initial_session)) \<le> 5"
proof (intro conjI impI)
  show "state (script all_models (Rerun f) s) = s" by simp
next
  assume ch: "state (script all_models a s) \<noteq> s"
  then obtain g where a: "a = Run g" by (cases a) auto
  from ch have run: "analysis_run (state (script all_models a s))" by (rule script_changes)
  from ch script_Run_cases [of all_models g s] obtain prob importance where
    "evaluate all_models g = Inr (prob, importance)"
    "state (script all_models a s)
       = s\<lparr>risk_prob := prob, feature_imp := top5 importance, analysis_run := True\<rparr>"
    unfolding a by blast
  with a run
  show "\<exists>g prob importance. a = Run g \<and> evaluate all_models g = Inr (prob, importance)
           \<and> state (script all_models a s)
              = s\<lparr>risk_prob := prob, feature_imp := top5 importance, analysis_run := True\<rparr>
           \<and> analysis_run (state (script all_models a s))"
    by blast
next
  assume e: "evaluate all_models f = Inr (prob, importance)"
  then have "w_model_name f \<in> fst ` set all_models"
    by (auto simp: evaluate_def dict_lookup_def Let_def split: option.splits dest: map_of_SomeD
        intro: rev_image_eqI)
  with e show "state (script all_models (Run f) s)
      = \<lparr>analysis_run = True, risk_prob = prob, feature_imp = top5 importance\<rparr>"
    by (simp add: run_pressed_def)
next
  assume "analysis_run s"
  then show "analysis_run (session_after all_models acts s)"
    by (rule session_after_keeps_evaluated)
next
  show "session_after all_models acts initial_session = initial_session
      \<or> analysis_run (session_after all_models acts initial_session)"
    by (rule session_after_idle_or_evaluated)
next
  show "length (feature_imp (session_after all_models acts initial_session)) \<le> 5"
    by (rule session_after_short_list) (simp add: initial_session_def)
qed

theorem session_transitions_witness:
  "state (script registry (Run (default_form ''Decision Tree'')) initial_session)
      \<noteq> initial_session
   \<and> evaluate registry (default_form ''Decision Tree'') = Inr (0.7, tree_scores)
   \<and> state (script registry (Run (default_form ''Decision Tree'')) initial_session)
      = evaluated_session
   \<and> analysis_run evaluated_session
   \<and> analysis_run (session_after registry
        [Run (default_form ''Broken''), Rerun (default_form ''Empty'')] evaluated_session)
   \<and> session_after registry
        [Rerun (default_form ''Decision Tree''), Run (default_form ''Broken'')] initial_session
      = initial_session
   \<and> analysis_run (session_after registry
        [Rerun (default_form ''Decision Tree''), Run (default_form ''Broken''),
         Run (default_form ''Decision Tree''), Run (default_form ''Empty'')] initial_session)"
proof -
  have r: "state (script registry (Run (default_form ''Decision Tree'')) initial_session)
      = evaluated_session"
    using session_transitions [of registry "default_form ''Decision Tree''" initial_session
        "Run (default_form ''Decision Tree'')" "0.7" tree_scores "[]"]
      evaluate_tree top5_tree_scores
    by (simp add: evaluated_session_def)
  have ne: "evaluated_session \<noteq> initial_session"
    by (simp add: evaluated_session_def initial_session_def)
  have ev: "analysis_run evaluated_session" by (simp add: evaluated_session_def)
  have k: "analysis_run (session_after registry
        [Run (default_form ''Broken''), Rerun (default_form ''Empty'')] evaluated_session)"
    using session_transitions [of registry "default_form ''Broken''" evaluated_session
        "Rerun (default_form ''Broken'')" 0 "[]"
        "[Run (default_form ''Broken''), Rerun (default_form ''Empty'')]"] ev
    by blast
  have b: "state (script registry (Run (default_form ''Broken'')) s) = s" for s
    by (simp add: run_pressed_def evaluate_broken)
  have e: "state (script registry (Run (default_form ''Empty'')) s) = s" for s
    by (simp add: run_pressed_def evaluate_empty)
  have i: "session_after registry
        [Rerun (default_form ''Decision Tree''), Run (default_form ''Broken'')] initial_session
      = initial_session"
    using b by simp
  have j: "analysis_run (session_after registry
        [Rerun (default_form ''Decision Tree''), Run (default_form ''Broken''),
         Run (default_form ''Decision Tree''), Run (default_form ''Empty'')] initial_session)"
    using b e r ev by simp
  from r ne ev k i j evaluate_tree show ?thesis by simp
qed

end
